theory Spec2Isabelle
  imports Main
begin

section \<open>JavaScript values\<close>

text \<open>
  Messages on the realtime channel are typed \<^verbatim>\<open>any\<close> in the hook, so the model keeps a
  small universe of JavaScript values. Numbers are restricted to integers (nothing below
  depends on fractions); \<open>JBigInt\<close> stands for the values \<^verbatim>\<open>JSON.stringify\<close> refuses.
\<close>

datatype js_value =
    JUndefined
  | JNull
  | JBool bool
  | JNum int
  | JBigInt int
  | JStr string
  | JArr "js_value list"
  | JObj "(string \<times> js_value) list"

datatype js_exception = TypeError | SyntaxError

text \<open>
  \<^verbatim>\<open>JSON.stringify\<close> throws a TypeError when it meets a BigInt anywhere in the value. The
  text it produces is not spelled out: a serialised frame is represented by the value that was
  serialised.
\<close>

fun serialisable :: "js_value \<Rightarrow> bool" where
  "serialisable (JBigInt n) = False"
| "serialisable (JArr xs) = list_all serialisable xs"
| "serialisable (JObj kvs) = list_all serialisable (map snd kvs)"
| "serialisable v = True"

definition JSON_stringify :: "js_value \<Rightarrow> js_exception + js_value" where
  "JSON_stringify v = (if serialisable v then Inr v else Inl TypeError)"

text \<open>JavaScript truthiness, as used by \<^verbatim>\<open>if (lastMessage)\<close> and \<^verbatim>\<open>!!id\<close>.\<close>

fun truthy :: "js_value \<Rightarrow> bool" where
  "truthy JUndefined = False"
| "truthy JNull = False"
| "truthy (JBool b) = b"
| "truthy (JNum n) = (n \<noteq> 0)"
| "truthy (JBigInt n) = (n \<noteq> 0)"
| "truthy (JStr s) = (s \<noteq> [])"
| "truthy (JArr xs) = True"
| "truthy (JObj kvs) = True"

section \<open>The realtime channel: \<^verbatim>\<open>useWebSocket\<close>\<close>

text \<open>
  The options of the hook, with the defaults of its destructuring pattern. \<open>url_ok\<close> is not
  an option: it says whether \<^verbatim>\<open>new URL(url, origin)\<close> and \<^verbatim>\<open>new WebSocket(...)\<close> succeed for
  the hook's \<^verbatim>\<open>url\<close> argument (both throw on a malformed address).
\<close>

record ws_options =
  url_ok :: bool
  enabled :: bool
  reconnect :: bool
  reconnectInterval :: int
  maxReconnectAttempts :: int

definition default_options :: ws_options where
  "default_options =
     \<lparr>url_ok = True, enabled = True, reconnect = True,
      reconnectInterval = 3000, maxReconnectAttempts = 5\<rparr>"

datatype ready_state = CONNECTING | OPEN | CLOSING | CLOSED

datatype connection_state = Connecting | Connected | Disconnected | Error

datatype observer_call = OnOpen | OnClose | OnError | OnMessage js_value

datatype console_entry =
    FailedToParse js_exception
  | WebSocketError
  | FailedToCreate

text \<open>
  The state of one hook instance: the three \<^verbatim>\<open>useState\<close> cells (each modelled by the value
  last assigned to it), the four refs, and what the hook does to its environment. Sockets are numbered in the order of their construction and
  \<open>sockets\<close> holds the \<^verbatim>\<open>readyState\<close> of each; \<open>pending\<close> holds the timeouts that are set
  and not yet fired or cleared (identifier and delay); \<open>timeouts_set\<close> records the delay of
  every \<^verbatim>\<open>setTimeout\<close> call ever made; \<open>sent\<close> records every frame handed to a socket;
  \<open>observed\<close> records the calls of the \<^verbatim>\<open>onOpen\<close>, \<^verbatim>\<open>onClose\<close>, \<^verbatim>\<open>onError\<close>, \<^verbatim>\<open>onMessage\<close>
  observers; \<open>console\<close> records the \<^verbatim>\<open>console.error\<close> lines.
\<close>

record ws_hook =
  isConnected :: bool
  lastMessage :: js_value
  connectionState :: connection_state
  wsRef :: "nat option"
  reconnectTimeoutRef :: "nat option"
  reconnectAttemptsRef :: nat
  clientIdRef :: string
  sockets :: "ready_state list"
  pending :: "(nat \<times> int) list"
  timeouts_set :: "int list"
  sent :: "(nat \<times> js_value) list"
  observed :: "observer_call list"
  console :: "console_entry list"

definition initial :: "string \<Rightarrow> ws_hook" where
  "initial cid =
     \<lparr>isConnected = False, lastMessage = JNull, connectionState = Disconnected,
      wsRef = None, reconnectTimeoutRef = None, reconnectAttemptsRef = 0,
      clientIdRef = cid, sockets = [], pending = [], timeouts_set = [],
      sent = [], observed = [], console = []\<rparr>"

text \<open>\<^verbatim>\<open>wsRef.current?.readyState\<close>, for a socket number.\<close>

definition readyState :: "ws_hook \<Rightarrow> nat \<Rightarrow> ready_state option" where
  "readyState st s = (if s < length (sockets st) then Some (sockets st ! s) else None)"

definition wsRef_readyState :: "ws_hook \<Rightarrow> ready_state option" where
  "wsRef_readyState st = (case wsRef st of None \<Rightarrow> None | Some s \<Rightarrow> readyState st s)"

text \<open>
  \<^verbatim>\<open>connect\<close>: returns at once when the hook is disabled or the current socket is still
  connecting; otherwise enters \<open>Connecting\<close>, constructs a socket and stores it in \<open>wsRef\<close>.
  A construction that throws is caught: the state becomes \<open>Error\<close> and a line is logged.
\<close>

definition connect :: "ws_options \<Rightarrow> ws_hook \<Rightarrow> ws_hook" where
  "connect opts st =
     (if \<not> enabled opts \<or> wsRef_readyState st = Some CONNECTING then st
      else if url_ok opts then
        st\<lparr>connectionState := Connecting,
           sockets := sockets st @ [CONNECTING],
           wsRef := Some (length (sockets st))\<rparr>
      else
        st\<lparr>connectionState := Error, console := console st @ [FailedToCreate]\<rparr>)"

text \<open>The \<^verbatim>\<open>connection_info\<close> envelope sent by \<^verbatim>\<open>ws.onopen\<close>.\<close>

definition connection_info :: "string \<Rightarrow> string \<Rightarrow> js_value" where
  "connection_info cid now =
     JObj [(''type'', JStr ''connection_info''),
           (''data'', JObj [(''client_id'', JStr cid), (''timestamp'', JStr now)])]"

definition ws_onopen :: "nat \<Rightarrow> string \<Rightarrow> ws_hook \<Rightarrow> ws_hook" where
  "ws_onopen s now st =
     st\<lparr>isConnected := True,
        connectionState := Connected,
        reconnectAttemptsRef := 0,
        observed := observed st @ [OnOpen],
        sent := sent st @ [(s, connection_info (clientIdRef st) now)]\<rparr>"

text \<open>
  \<^verbatim>\<open>ws.onmessage\<close>: \<^verbatim>\<open>JSON.parse\<close> is the built-in, taken as the parameter \<open>parse\<close>; when it
  throws, the \<^verbatim>\<open>catch\<close> block logs and nothing else happens.
\<close>

definition ws_onmessage ::
  "(string \<Rightarrow> js_exception + js_value) \<Rightarrow> string \<Rightarrow> ws_hook \<Rightarrow> ws_hook" where
  "ws_onmessage parse payload st =
     (case parse payload of
        Inr message \<Rightarrow>
          st\<lparr>lastMessage := message, observed := observed st @ [OnMessage message]\<rparr>
      | Inl e \<Rightarrow> st\<lparr>console := console st @ [FailedToParse e]\<rparr>)"

text \<open>
  \<^verbatim>\<open>ws.onclose\<close>: the reconnect is scheduled with \<^verbatim>\<open>setTimeout\<close>; timer identifiers are
  positive, as in a browser, and never reused.
\<close>

definition ws_onclose :: "ws_options \<Rightarrow> ws_hook \<Rightarrow> ws_hook" where
  "ws_onclose opts st =
     (let st1 = st\<lparr>isConnected := False, connectionState := Disconnected, wsRef := None,
                   observed := observed st @ [OnClose]\<rparr>
      in if reconnect opts \<and> int (reconnectAttemptsRef st1) < maxReconnectAttempts opts then
           (let t = Suc (length (timeouts_set st1))
            in st1\<lparr>reconnectAttemptsRef := reconnectAttemptsRef st1 + 1,
                   reconnectTimeoutRef := Some t,
                   pending := pending st1 @ [(t, reconnectInterval opts)],
                   timeouts_set := timeouts_set st1 @ [reconnectInterval opts]\<rparr>)
         else st1)"

definition ws_onerror :: "ws_hook \<Rightarrow> ws_hook" where
  "ws_onerror st =
     st\<lparr>connectionState := Error,
        observed := observed st @ [OnError],
        console := console st @ [WebSocketError]\<rparr>"

text \<open>\<^verbatim>\<open>WebSocket.close()\<close>: a socket that is connecting or open starts closing.\<close>

definition ws_close :: "nat \<Rightarrow> ready_state list \<Rightarrow> ready_state list" where
  "ws_close s socks =
     (if s < length socks \<and> (socks ! s = CONNECTING \<or> socks ! s = OPEN)
      then socks[s := CLOSING] else socks)"

definition clearTimeout :: "nat \<Rightarrow> (nat \<times> int) list \<Rightarrow> (nat \<times> int) list" where
  "clearTimeout t ps = filter (\<lambda>p. fst p \<noteq> t) ps"

definition disconnect :: "ws_hook \<Rightarrow> ws_hook" where
  "disconnect st =
     (let st1 = (case reconnectTimeoutRef st of
                   Some t \<Rightarrow> st\<lparr>pending := clearTimeout t (pending st),
                               reconnectTimeoutRef := None\<rparr>
                 | None \<Rightarrow> st);
          st2 = (case wsRef st1 of
                   Some s \<Rightarrow> st1\<lparr>sockets := ws_close s (sockets st1), wsRef := None\<rparr>
                 | None \<Rightarrow> st1)
      in st2\<lparr>isConnected := False, connectionState := Disconnected\<rparr>)"

text \<open>
  \<^verbatim>\<open>sendMessage\<close>: the result is the returned boolean, or the exception that escapes to the
  caller; there is no \<^verbatim>\<open>try\<close> around \<^verbatim>\<open>JSON.stringify\<close>.
\<close>

definition sendMessage :: "js_value \<Rightarrow> ws_hook \<Rightarrow> (js_exception + bool) \<times> ws_hook" where
  "sendMessage message st =
     (case wsRef st of
        None \<Rightarrow> (Inr False, st)
      | Some s \<Rightarrow>
          if readyState st s = Some OPEN then
            (case JSON_stringify message of
               Inl e \<Rightarrow> (Inl e, st)
             | Inr frame \<Rightarrow> (Inr True, st\<lparr>sent := sent st @ [(s, frame)]\<rparr>))
          else (Inr False, st))"

definition sendPing :: "string \<Rightarrow> ws_hook \<Rightarrow> (js_exception + bool) \<times> ws_hook" where
  "sendPing now st =
     sendMessage (JObj [(''type'', JStr ''ping''), (''data'', JObj [(''timestamp'', JStr now)])]) st"

subsection \<open>Runs of the channel\<close>

text \<open>
  What can happen to a hook instance: the browser reports that a socket opened, delivered a
  text frame, closed, or failed (a failure fires \<^verbatim>\<open>error\<close> and then \<^verbatim>\<open>close\<close> in one task, with
  \<^verbatim>\<open>readyState\<close> already \<open>CLOSED\<close>); a reconnect timeout fires; the ping interval, which
  runs while \<open>isConnected\<close>, ticks; the owner calls \<^verbatim>\<open>connect\<close>,
  \<^verbatim>\<open>disconnect\<close> or \<^verbatim>\<open>sendMessage\<close>. Mounting the hook is \<open>CallConnect\<close> (the effect calls
  \<^verbatim>\<open>connect()\<close> when enabled, and \<^verbatim>\<open>connect\<close> tests \<open>enabled\<close> itself), unmounting is
  \<open>CallDisconnect\<close>.
\<close>

datatype event =
    Opened nat string
  | Message nat string
  | Closed nat
  | Failed nat
  | Timeout nat
  | PingTick string
  | CallConnect
  | CallDisconnect
  | CallSend js_value

definition fire ::
  "(string \<Rightarrow> js_exception + js_value) \<Rightarrow> ws_options \<Rightarrow> event \<Rightarrow> ws_hook \<Rightarrow> ws_hook" where
  "fire parse opts e st =
     (case e of
        Opened s now \<Rightarrow> ws_onopen s now (st\<lparr>sockets := (sockets st)[s := OPEN]\<rparr>)
      | Message s payload \<Rightarrow> ws_onmessage parse payload st
      | Closed s \<Rightarrow> ws_onclose opts (st\<lparr>sockets := (sockets st)[s := CLOSED]\<rparr>)
      | Failed s \<Rightarrow> ws_onclose opts (ws_onerror (st\<lparr>sockets := (sockets st)[s := CLOSED]\<rparr>))
      | Timeout t \<Rightarrow>
          if t \<in> fst ` set (pending st)
          then connect opts (st\<lparr>pending := clearTimeout t (pending st)\<rparr>)
          else st
      | PingTick now \<Rightarrow> if isConnected st then snd (sendPing now st) else st
      | CallConnect \<Rightarrow> connect opts st
      | CallDisconnect \<Rightarrow> disconnect st
      | CallSend m \<Rightarrow> snd (sendMessage m st))"

text \<open>When the environment can produce an event; the owner's calls are always possible.\<close>

definition possible :: "event \<Rightarrow> ws_hook \<Rightarrow> bool" where
  "possible e st =
     (case e of
        Opened s now \<Rightarrow> readyState st s = Some CONNECTING
      | Message s payload \<Rightarrow> readyState st s = Some OPEN
      | Closed s \<Rightarrow> readyState st s \<noteq> None \<and> readyState st s \<noteq> Some CLOSED
      | Failed s \<Rightarrow> readyState st s \<noteq> None \<and> readyState st s \<noteq> Some CLOSED
      | Timeout t \<Rightarrow> t \<in> fst ` set (pending st)
      | PingTick now \<Rightarrow> isConnected st
      | CallConnect \<Rightarrow> True
      | CallDisconnect \<Rightarrow> True
      | CallSend m \<Rightarrow> True)"

fun run ::
  "(string \<Rightarrow> js_exception + js_value) \<Rightarrow> ws_options \<Rightarrow> event list \<Rightarrow> ws_hook \<Rightarrow> ws_hook" where
  "run parse opts [] st = st"
| "run parse opts (e # es) st = run parse opts es (fire parse opts e st)"

fun feasible ::
  "(string \<Rightarrow> js_exception + js_value) \<Rightarrow> ws_options \<Rightarrow> event list \<Rightarrow> ws_hook \<Rightarrow> bool" where
  "feasible parse opts [] st = True"
| "feasible parse opts (e # es) st =
     (possible e st \<and> feasible parse opts es (fire parse opts e st))"

definition is_open_event :: "event \<Rightarrow> bool" where
  "is_open_event e = (case e of Opened s now \<Rightarrow> True | _ \<Rightarrow> False)"

definition is_call :: "event \<Rightarrow> bool" where
  "is_call e = (case e of CallConnect \<Rightarrow> True | CallDisconnect \<Rightarrow> True | CallSend m \<Rightarrow> True
                | _ \<Rightarrow> False)"

section \<open>Memories and the REST client\<close>

text \<open>
  The \<^verbatim>\<open>Memory\<close> interface, with its required fields; the optional ones (summary, tags,
  source, context, shared category, access time, assistant) are kept as a list of named
  values. \<open>id'\<close> is the field \<^verbatim>\<open>id\<close>.
\<close>

record Memory =
  id' :: int
  assistant_id :: int
  content :: string
  memory_type :: string
  importance :: int
  is_shared :: bool
  access_count :: int
  created_at :: string
  updated_at :: string
  optional_fields :: "(string \<times> js_value) list"

record CreateMemoryRequest =
  assistant_id_r :: int
  content_r :: string
  optional_fields_r :: "(string \<times> js_value) list"

type_synonym UpdateMemoryRequest = "(string \<times> js_value) list"

text \<open>
  Every field of \<^verbatim>\<open>MemoryFilters\<close> is optional: it can be left out, be there with the value
  \<^verbatim>\<open>undefined\<close>, or be given.
\<close>

datatype 'a field = Absent | Undefined | Given 'a

record MemoryFilters =
  assistant_id_f :: "int field"
  memory_type_f :: "string field"
  min_importance_f :: "int field"
  max_importance_f :: "int field"
  tags_f :: "string list field"
  include_shared_f :: "bool field"
  skip_f :: "int field"
  limit_f :: "int field"

definition no_filters :: MemoryFilters where
  "no_filters =
     \<lparr>assistant_id_f = Absent, memory_type_f = Absent, min_importance_f = Absent,
      max_importance_f = Absent, tags_f = Absent, include_shared_f = Absent,
      skip_f = Absent, limit_f = Absent\<rparr>"

text \<open>The calls of \<^verbatim>\<open>memoryService\<close> that the hooks below make.\<close>

datatype api_call =
    getMemories MemoryFilters
  | getMemory int
  | getMemoryStats int
  | createMemory CreateMemoryRequest
  | updateMemory int UpdateMemoryRequest
  | deleteMemory int

subsection \<open>The response interceptor of \<^verbatim>\<open>services/api.ts\<close>\<close>

record error_body =
  detail :: "string option"
  error_text :: "string option"
  details :: "(string \<times> string) list option"

record AxiosError =
  message :: "string option"
  response :: "(nat \<times> error_body) option"
  request :: bool

datatype toast = ToastSuccess string | ToastError string

text \<open>\<^verbatim>\<open>x || fallback\<close> on an optional string: an absent or empty string is falsy.\<close>

definition or_else :: "string option \<Rightarrow> string \<Rightarrow> string" where
  "or_else x fallback = (case x of None \<Rightarrow> fallback | Some s \<Rightarrow> if s = [] then fallback else s)"

definition interceptor_toasts :: "AxiosError \<Rightarrow> toast list" where
  "interceptor_toasts e =
     (case response e of
        Some (status, body) \<Rightarrow>
          if status = 400 then [ToastError (or_else (detail body) ''Bad request'')]
          else if status = 401 then [ToastError ''Authentication required'']
          else if status = 403 then [ToastError ''Access denied'']
          else if status = 404 then [ToastError (or_else (detail body) ''Resource not found'')]
          else if status = 422 then
            (case details body of
               Some ds \<Rightarrow> map (\<lambda>(field, msg). ToastError (field @ '': '' @ msg)) ds
             | None \<Rightarrow> [ToastError (or_else (error_text body) ''Validation error'')])
          else if status = 429 then [ToastError ''Too many requests. Please slow down.'']
          else if status = 500 then [ToastError ''Internal server error. Please try again.'']
          else [ToastError (or_else (error_text body) ''An error occurred'')]
      | None \<Rightarrow>
          if request e then [ToastError ''Network error. Please check your connection.'']
          else [ToastError ''Request failed. Please try again.''])"

section \<open>The server-state cache\<close>

subsection \<open>Query keys: \<^verbatim>\<open>MEMORY_KEYS\<close>\<close>

datatype key_part = KStr string | KNum int | KUndefined | KFilters MemoryFilters

type_synonym query_key = "key_part list"

definition optional_id :: "int option \<Rightarrow> key_part" where
  "optional_id a = (case a of None \<Rightarrow> KUndefined | Some n \<Rightarrow> KNum n)"

definition MEMORY_KEYS_all :: query_key where
  "MEMORY_KEYS_all = [KStr ''memories'']"

definition MEMORY_KEYS_lists :: query_key where
  "MEMORY_KEYS_lists = MEMORY_KEYS_all @ [KStr ''list'']"

definition MEMORY_KEYS_list :: "MemoryFilters \<Rightarrow> query_key" where
  "MEMORY_KEYS_list filters = MEMORY_KEYS_lists @ [KFilters filters]"

definition MEMORY_KEYS_details :: query_key where
  "MEMORY_KEYS_details = MEMORY_KEYS_all @ [KStr ''detail'']"

definition MEMORY_KEYS_detail :: "int \<Rightarrow> query_key" where
  "MEMORY_KEYS_detail i = MEMORY_KEYS_details @ [KNum i]"

definition MEMORY_KEYS_related :: "int \<Rightarrow> query_key" where
  "MEMORY_KEYS_related i = MEMORY_KEYS_all @ [KStr ''related'', KNum i]"

definition MEMORY_KEYS_stats :: "int \<Rightarrow> query_key" where
  "MEMORY_KEYS_stats assistantId = MEMORY_KEYS_all @ [KStr ''stats'', KNum assistantId]"

definition MEMORY_KEYS_recent :: "int option \<Rightarrow> query_key" where
  "MEMORY_KEYS_recent assistantId = MEMORY_KEYS_all @ [KStr ''recent'', optional_id assistantId]"

definition MEMORY_KEYS_important :: "int option \<Rightarrow> query_key" where
  "MEMORY_KEYS_important assistantId =
     MEMORY_KEYS_all @ [KStr ''important'', optional_id assistantId]"

definition MEMORY_KEYS_accessed :: "int option \<Rightarrow> query_key" where
  "MEMORY_KEYS_accessed assistantId =
     MEMORY_KEYS_all @ [KStr ''accessed'', optional_id assistantId]"

subsection \<open>The query client\<close>

text \<open>
  The hooks are written against the \<^verbatim>\<open>react-query\<close> client; what they use of it is modelled
  here. A cache maps the hash of a query key to its entry. The hash is the key serialised by
  \<^verbatim>\<open>JSON.stringify\<close>, which leaves out the fields of an object whose value is
  \<^verbatim>\<open>undefined\<close>: keys that differ in such fields only name one entry, and \<open>queryHash\<close> is
  the key in that normal form. A key given to \<^verbatim>\<open>invalidateQueries\<close> or \<^verbatim>\<open>removeQueries\<close>
  selects every entry whose key it is a part of (\<open>partialMatchKey\<close>): the parts are compared
  position by position, an object part matching when each field it has is matched by the
  entry's part (a field it has with the value \<^verbatim>\<open>undefined\<close> by an entry without that field).
  An argument that is not a key (no string, no array) is read as a filter object, and one
  without filter fields selects every entry (\<open>Unfiltered\<close>).

  An entry holds the data with the time of its last update (0 when there was none), the
  status, the invalidation mark, whether a fetch is under way with the number of its failed
  attempts, and the query function the fetch runs.
\<close>

datatype query_status = QIdle | QLoading | QSuccess | QError

datatype server_data = AMemory Memory | OtherData js_value

record query =
  data :: "server_data option"
  dataUpdatedAt :: nat
  status :: query_status
  isInvalidated :: bool
  isFetching :: bool
  fetchFailureCount :: nat
  fetcher :: "api_call option"

type_synonym query_cache = "query_key \<Rightarrow> query option"

definition idle_query :: query where
  "idle_query =
     \<lparr>data = None, dataUpdatedAt = 0, status = QIdle, isInvalidated = False,
      isFetching = False, fetchFailureCount = 0, fetcher = None\<rparr>"

definition hash_field :: "'a field \<Rightarrow> 'a field" where
  "hash_field f = (case f of Undefined \<Rightarrow> Absent | Absent \<Rightarrow> Absent | Given v \<Rightarrow> Given v)"

definition hash_filters :: "MemoryFilters \<Rightarrow> MemoryFilters" where
  "hash_filters f =
     \<lparr>assistant_id_f = hash_field (assistant_id_f f),
      memory_type_f = hash_field (memory_type_f f),
      min_importance_f = hash_field (min_importance_f f),
      max_importance_f = hash_field (max_importance_f f),
      tags_f = hash_field (tags_f f),
      include_shared_f = hash_field (include_shared_f f),
      skip_f = hash_field (skip_f f),
      limit_f = hash_field (limit_f f)\<rparr>"

fun hash_part :: "key_part \<Rightarrow> key_part" where
  "hash_part (KFilters f) = KFilters (hash_filters f)"
| "hash_part p = p"

definition queryHash :: "query_key \<Rightarrow> query_key" where
  "queryHash k = map hash_part k"

definition field_matches :: "'a field \<Rightarrow> 'a field \<Rightarrow> bool" where
  "field_matches a b =
     (case b of
        Absent \<Rightarrow> True
      | Undefined \<Rightarrow> (case a of Given v \<Rightarrow> False | _ \<Rightarrow> True)
      | Given v \<Rightarrow> a = Given v)"

definition tags_match :: "string list field \<Rightarrow> string list field \<Rightarrow> bool" where
  "tags_match a b =
     (case b of
        Absent \<Rightarrow> True
      | Undefined \<Rightarrow> (case a of Given ta \<Rightarrow> False | _ \<Rightarrow> True)
      | Given tb \<Rightarrow> (case a of Given ta \<Rightarrow> take (length tb) ta = tb | _ \<Rightarrow> False))"

definition filters_match :: "MemoryFilters \<Rightarrow> MemoryFilters \<Rightarrow> bool" where
  "filters_match a b =
     (field_matches (assistant_id_f a) (assistant_id_f b) \<and>
      field_matches (memory_type_f a) (memory_type_f b) \<and>
      field_matches (min_importance_f a) (min_importance_f b) \<and>
      field_matches (max_importance_f a) (max_importance_f b) \<and>
      tags_match (tags_f a) (tags_f b) \<and>
      field_matches (include_shared_f a) (include_shared_f b) \<and>
      field_matches (skip_f a) (skip_f b) \<and>
      field_matches (limit_f a) (limit_f b))"

fun partialDeepEqual :: "key_part \<Rightarrow> key_part \<Rightarrow> bool" where
  "partialDeepEqual (KFilters a) (KFilters b) = filters_match a b"
| "partialDeepEqual a b = (a = b)"

fun partialMatchKey :: "query_key \<Rightarrow> query_key \<Rightarrow> bool" where
  "partialMatchKey a [] = True"
| "partialMatchKey [] (b # bs) = (b = KUndefined \<and> partialMatchKey [] bs)"
| "partialMatchKey (a # as) (b # bs) = (partialDeepEqual a b \<and> partialMatchKey as bs)"

datatype query_filters = ByKey query_key | Unfiltered

definition matchQuery :: "query_filters \<Rightarrow> query_key \<Rightarrow> bool" where
  "matchQuery f k = (case f of ByKey b \<Rightarrow> partialMatchKey k b | Unfiltered \<Rightarrow> True)"

definition invalidateQueries :: "query_filters \<Rightarrow> query_cache \<Rightarrow> query_cache" where
  "invalidateQueries f c =
     (\<lambda>k. case c k of
            None \<Rightarrow> None
          | Some q \<Rightarrow> if matchQuery f k then Some (q\<lparr>isInvalidated := True\<rparr>) else Some q)"

definition removeQueries :: "query_filters \<Rightarrow> query_cache \<Rightarrow> query_cache" where
  "removeQueries f c = (\<lambda>k. if matchQuery f k then None else c k)"

text \<open>
  \<^verbatim>\<open>setQueryData\<close> stores the data as a successful fetch would, at the time \<open>now\<close>, in the
  entry of the key, which it creates when there is none.
\<close>

definition setQueryData ::
  "query_key \<Rightarrow> server_data \<Rightarrow> nat \<Rightarrow> query_cache \<Rightarrow> query_cache" where
  "setQueryData k v now c =
     (let q = (case c (queryHash k) of None \<Rightarrow> idle_query | Some q \<Rightarrow> q)
      in c(queryHash k \<mapsto>
             q\<lparr>data := Some v, dataUpdatedAt := now, status := QSuccess,
               isInvalidated := False, isFetching := False, fetchFailureCount := 0\<rparr>))"

text \<open>
  The client of \<^verbatim>\<open>main.tsx\<close> sets defaults for queries only (two retries, data stale after
  five minutes); mutations keep the library's default of no retry.
\<close>

record client_defaults =
  queries_retry :: nat
  queries_refetchOnWindowFocus :: bool
  queries_staleTime :: int
  mutations_retry :: "nat option"

definition queryClient_defaults :: client_defaults where
  "queryClient_defaults =
     \<lparr>queries_retry = 2, queries_refetchOnWindowFocus = False,
      queries_staleTime = 5 * 60 * 1000, mutations_retry = None\<rparr>"

definition mutation_retry :: "client_defaults \<Rightarrow> nat" where
  "mutation_retry d = (case mutations_retry d of None \<Rightarrow> 0 | Some n \<Rightarrow> n)"

text \<open>
  An entry is stale at the time \<open>now\<close> when it was invalidated, holds no data yet, or holds
  data as old as the stale time.
\<close>

definition isStale :: "nat \<Rightarrow> query \<Rightarrow> bool" where
  "isStale now q =
     (isInvalidated q \<or> dataUpdatedAt q = 0 \<or>
      int (dataUpdatedAt q) + queries_staleTime queryClient_defaults \<le> int now)"

subsection \<open>The application state\<close>

text \<open>
  Beside the cache: the notifications shown, every request sent through \<^verbatim>\<open>memoryService\<close>,
  the lines \<^verbatim>\<open>App\<close> logs, the channel, the current time (\<^verbatim>\<open>Date.now()\<close>), and the entries
  whose fetch has a request sent and not yet answered.
\<close>

record app =
  cache :: query_cache
  toasts :: "toast list"
  requests :: "api_call list"
  app_console :: "js_value list"
  ws :: ws_hook
  clock :: nat
  outstanding :: "query_key list"

text \<open>
  A remote call is attempted once and then again for every retry allowed, until it succeeds;
  the server's answer to the \<open>i\<close>-th attempt is \<open>server i\<close>. The result lists the outcome of
  every attempt made.
\<close>

fun attempts_made ::
  "nat \<Rightarrow> nat \<Rightarrow> (nat \<Rightarrow> AxiosError + 'r) \<Rightarrow> (AxiosError + 'r) list" where
  "attempts_made 0 i server = [server i]"
| "attempts_made (Suc k) i server =
     (case server i of
        Inr r \<Rightarrow> [Inr r]
      | Inl e \<Rightarrow> Inl e # attempts_made k (Suc i) server)"

definition failure_toasts :: "(AxiosError + 'r) list \<Rightarrow> toast list" where
  "failure_toasts outcomes =
     concat (map (\<lambda>x. case x of Inl e \<Rightarrow> interceptor_toasts e | Inr r \<Rightarrow> []) outcomes)"

text \<open>
  \<^verbatim>\<open>useMutation\<close>: runs \<open>mutationFn\<close> through the REST client (every failed attempt passes the
  response interceptor), then \<open>onSuccess\<close> with the data and the variables, or \<open>onError\<close> with
  the error; the promise given to the caller settles with the same outcome.
\<close>

definition useMutation ::
  "('v \<Rightarrow> api_call) \<Rightarrow> ('r \<Rightarrow> 'v \<Rightarrow> app \<Rightarrow> app) \<Rightarrow> (AxiosError \<Rightarrow> app \<Rightarrow> app) \<Rightarrow>
   'v \<Rightarrow> (nat \<Rightarrow> AxiosError + 'r) \<Rightarrow> app \<Rightarrow> (AxiosError + 'r) \<times> app" where
  "useMutation mutationFn onSuccess onError variables server st =
     (let outcomes = attempts_made (mutation_retry queryClient_defaults) 0 server;
          st1 = st\<lparr>requests := requests st @ replicate (length outcomes) (mutationFn variables),
                   toasts := toasts st @ failure_toasts outcomes\<rparr>
      in case last outcomes of
           Inr r \<Rightarrow> (Inr r, onSuccess r variables st1)
         | Inl e \<Rightarrow> (Inl e, onError e st1))"

subsection \<open>The mutation hooks\<close>

definition useCreateMemory_onSuccess :: "Memory \<Rightarrow> CreateMemoryRequest \<Rightarrow> app \<Rightarrow> app" where
  "useCreateMemory_onSuccess newMemory variables st =
     st\<lparr>cache :=
          invalidateQueries (ByKey (MEMORY_KEYS_recent (Some (assistant_id newMemory))))
            (invalidateQueries (ByKey (MEMORY_KEYS_stats (assistant_id newMemory)))
              (invalidateQueries (ByKey MEMORY_KEYS_lists) (cache st))),
        toasts := toasts st @ [ToastSuccess ''Memory created successfully'']\<rparr>"

definition useCreateMemory_onError :: "AxiosError \<Rightarrow> app \<Rightarrow> app" where
  "useCreateMemory_onError e st =
     st\<lparr>toasts := toasts st @ [ToastError (or_else (message e) ''Failed to create memory'')]\<rparr>"

definition useCreateMemory ::
  "CreateMemoryRequest \<Rightarrow> (nat \<Rightarrow> AxiosError + Memory) \<Rightarrow> app \<Rightarrow> (AxiosError + Memory) \<times> app" where
  "useCreateMemory = useMutation createMemory useCreateMemory_onSuccess useCreateMemory_onError"

definition useUpdateMemory_onSuccess ::
  "Memory \<Rightarrow> int \<times> UpdateMemoryRequest \<Rightarrow> app \<Rightarrow> app" where
  "useUpdateMemory_onSuccess updatedMemory variables st =
     st\<lparr>cache :=
          invalidateQueries (ByKey (MEMORY_KEYS_stats (assistant_id updatedMemory)))
            (invalidateQueries (ByKey MEMORY_KEYS_lists)
              (setQueryData (MEMORY_KEYS_detail (id' updatedMemory)) (AMemory updatedMemory)
                (clock st) (cache st))),
        toasts := toasts st @ [ToastSuccess ''Memory updated successfully'']\<rparr>"

definition useUpdateMemory_onError :: "AxiosError \<Rightarrow> app \<Rightarrow> app" where
  "useUpdateMemory_onError e st =
     st\<lparr>toasts := toasts st @ [ToastError (or_else (message e) ''Failed to update memory'')]\<rparr>"

definition useUpdateMemory ::
  "int \<times> UpdateMemoryRequest \<Rightarrow> (nat \<Rightarrow> AxiosError + Memory) \<Rightarrow> app \<Rightarrow>
   (AxiosError + Memory) \<times> app" where
  "useUpdateMemory =
     useMutation (\<lambda>(i, d). updateMemory i d) useUpdateMemory_onSuccess useUpdateMemory_onError"

text \<open>
  In \<^verbatim>\<open>useDeleteMemory\<close> the second invalidation is given \<^verbatim>\<open>MEMORY_KEYS.stats\<close> itself, the
  function and not a key it builds: the client reads it as a filter object without fields.
\<close>

definition useDeleteMemory_onSuccess :: "js_value \<Rightarrow> int \<Rightarrow> app \<Rightarrow> app" where
  "useDeleteMemory_onSuccess r deletedId st =
     st\<lparr>cache :=
          invalidateQueries Unfiltered
            (invalidateQueries (ByKey MEMORY_KEYS_lists)
              (removeQueries (ByKey (MEMORY_KEYS_detail deletedId)) (cache st))),
        toasts := toasts st @ [ToastSuccess ''Memory deleted successfully'']\<rparr>"

definition useDeleteMemory_onError :: "AxiosError \<Rightarrow> app \<Rightarrow> app" where
  "useDeleteMemory_onError e st =
     st\<lparr>toasts := toasts st @ [ToastError (or_else (message e) ''Failed to delete memory'')]\<rparr>"

definition useDeleteMemory ::
  "int \<Rightarrow> (nat \<Rightarrow> AxiosError + js_value) \<Rightarrow> app \<Rightarrow> (AxiosError + js_value) \<times> app" where
  "useDeleteMemory = useMutation deleteMemory useDeleteMemory_onSuccess useDeleteMemory_onError"

subsection \<open>The query hooks\<close>

text \<open>
  The options a query hook hands to \<^verbatim>\<open>useQuery\<close>. The caller's \<^verbatim>\<open>options\<close> object is spread
  last, so an \<^verbatim>\<open>enabled\<close> field in it, whatever its value, replaces the hook's own; of that
  object only this field is modelled. \<open>enabled_q\<close> is what \<^verbatim>\<open>useQuery\<close> makes of the
  resulting field: a query is disabled only when it is \<^verbatim>\<open>false\<close>.
\<close>

record query_options =
  queryKey :: query_key
  queryFn :: api_call
  enabled_q :: bool

record hook_options =
  enabled_o :: "js_value option"

definition spread_enabled :: "bool \<Rightarrow> hook_options option \<Rightarrow> bool" where
  "spread_enabled own options =
     (case options of
        None \<Rightarrow> own
      | Some opt \<Rightarrow> (case enabled_o opt of None \<Rightarrow> own | Some v \<Rightarrow> v \<noteq> JBool False))"

definition useMemories_options :: "MemoryFilters \<Rightarrow> hook_options option \<Rightarrow> query_options" where
  "useMemories_options filters options =
     \<lparr>queryKey = MEMORY_KEYS_list filters, queryFn = getMemories filters,
      enabled_q = spread_enabled True options\<rparr>"

definition useMemory_options :: "int \<Rightarrow> hook_options option \<Rightarrow> query_options" where
  "useMemory_options i options =
     \<lparr>queryKey = MEMORY_KEYS_detail i, queryFn = getMemory i,
      enabled_q = spread_enabled (truthy (JNum i)) options\<rparr>"

definition useMemoryStats_options :: "int \<Rightarrow> hook_options option \<Rightarrow> query_options" where
  "useMemoryStats_options assistantId options =
     \<lparr>queryKey = MEMORY_KEYS_stats assistantId, queryFn = getMemoryStats assistantId,
      enabled_q = spread_enabled (truthy (JNum assistantId)) options\<rparr>"

text \<open>
  Modelled from the spec: \<^verbatim>\<open>useQuery\<close> belongs to the react-query library, which is not among
  the sources; this is the read contract, with the stale time and the retries that
  \<^verbatim>\<open>main.tsx\<close> sets. When a component mounts with these options, which is a read of the key,
  the entry is created idle if the cache has none. An enabled query whose entry is stale
  starts a fetch, unless one is under way already, which the read then joins: the query
  function is called (one request), the entry is marked as fetching, and it is loading when
  it holds no data yet. A fresh entry is read without a request.
\<close>

definition useQuery :: "query_options \<Rightarrow> app \<Rightarrow> app" where
  "useQuery opts st =
     (let k = queryHash (queryKey opts);
          q = (case cache st k of None \<Rightarrow> idle_query | Some q \<Rightarrow> q)
      in if enabled_q opts \<and> isStale (clock st) q \<and> \<not> isFetching q then
           st\<lparr>cache := (cache st)(k \<mapsto>
                          q\<lparr>status := (if dataUpdatedAt q = 0 then QLoading else status q),
                            isFetching := True, fetchFailureCount := 0,
                            fetcher := Some (queryFn opts)\<rparr>),
              requests := requests st @ [queryFn opts],
              outstanding := outstanding st @ [k]\<rparr>
         else st\<lparr>cache := (cache st)(k \<mapsto> q)\<rparr>)"

definition useMemories :: "MemoryFilters \<Rightarrow> hook_options option \<Rightarrow> app \<Rightarrow> app" where
  "useMemories filters options = useQuery (useMemories_options filters options)"

definition useMemory :: "int \<Rightarrow> hook_options option \<Rightarrow> app \<Rightarrow> app" where
  "useMemory i options = useQuery (useMemory_options i options)"

definition useMemoryStats :: "int \<Rightarrow> hook_options option \<Rightarrow> app \<Rightarrow> app" where
  "useMemoryStats assistantId options = useQuery (useMemoryStats_options assistantId options)"

subsection \<open>Fetches under way\<close>










section \<open>The application shell: \<^verbatim>\<open>App\<close>\<close>

text \<open>
  \<^verbatim>\<open>App\<close> mounts the channel with \<^verbatim>\<open>enabled\<close> and \<^verbatim>\<open>reconnect\<close> set and no observer. Its effect
  on \<^verbatim>\<open>lastMessage\<close> logs a truthy message and does nothing else. The effect runs when
  \<^verbatim>\<open>lastMessage\<close> changed: a parsed array or object is a new reference each time, other values
  are compared by value.
\<close>

definition App_lastMessage_effect :: "js_value \<Rightarrow> app \<Rightarrow> app" where
  "App_lastMessage_effect m st =
     (if truthy m then st\<lparr>app_console := app_console st @ [m]\<rparr> else st)"

fun is_reference :: "js_value \<Rightarrow> bool" where
  "is_reference (JArr xs) = True"
| "is_reference (JObj kvs) = True"
| "is_reference v = False"

definition App_receive ::
  "(string \<Rightarrow> js_exception + js_value) \<Rightarrow> nat \<Rightarrow> string \<Rightarrow> app \<Rightarrow> app" where
  "App_receive parse s payload st =
     (let before = lastMessage (ws st);
          st1 = st\<lparr>ws := fire parse default_options (Message s payload) (ws st)\<rparr>
      in case parse payload of
           Inl e \<Rightarrow> st1
         | Inr m \<Rightarrow> if is_reference m \<or> m \<noteq> before then App_lastMessage_effect m st1 else st1)"

section \<open>Sample inputs\<close>

text \<open>
  Concrete inputs for the scenarios below. \<open>sample_parse\<close> agrees with \<^verbatim>\<open>JSON.parse\<close> on the
  payloads it is applied to: the \<^verbatim>\<open>memory_deleted\<close> envelope parses, anything else used here is
  not JSON.
\<close>

definition deleted_payload :: string where
  \<open>deleted_payload =
     ''{"type":"memory_deleted","data":{"id":42},"timestamp":"2024-01-01T00:00:00Z"}''\<close>

definition deleted_message :: js_value where
  "deleted_message =
     JObj [(''type'', JStr ''memory_deleted''),
           (''data'', JObj [(''id'', JNum 42)]),
           (''timestamp'', JStr ''2024-01-01T00:00:00Z'')]"

definition sample_parse :: "string \<Rightarrow> js_exception + js_value" where
  "sample_parse s = (if s = deleted_payload then Inr deleted_message else Inl SyntaxError)"

definition connected_channel :: ws_hook where
  "connected_channel =
     run sample_parse default_options [CallConnect, Opened 0 ''2024-01-01T00:00:00Z'']
       (initial ''client-1'')"

text \<open>
  Six connections in a row that open and are closed by the server at once, each reconnect
  timer firing in between; and six connection attempts in a row that end (by \<open>ending\<close>, a
  close or a failure) without having opened.
\<close>

definition opened_and_closed_six_times :: "string \<Rightarrow> event list" where
  "opened_and_closed_six_times now =
     [CallConnect,
      Opened 0 now, Closed 0, Timeout 1,
      Opened 1 now, Closed 1, Timeout 2,
      Opened 2 now, Closed 2, Timeout 3,
      Opened 3 now, Closed 3, Timeout 4,
      Opened 4 now, Closed 4, Timeout 5,
      Opened 5 now, Closed 5]"

definition refused_six_times :: "(nat \<Rightarrow> event) \<Rightarrow> event list" where
  "refused_six_times ending =
     [CallConnect,
      ending 0, Timeout 1,
      ending 1, Timeout 2,
      ending 2, Timeout 3,
      ending 3, Timeout 4,
      ending 4, Timeout 5,
      ending 5]"

definition exhausted_channel :: ws_hook where
  "exhausted_channel =
     run sample_parse default_options (refused_six_times Failed) (initial ''client-1'')"

definition fresh_entry :: "server_data \<Rightarrow> query" where
  "fresh_entry v =
     \<lparr>data = Some v, dataUpdatedAt = 1700000000000, status = QSuccess, isInvalidated = False,
      isFetching = False, fetchFailureCount = 0, fetcher = None\<rparr>"

definition sample_memory :: "int \<Rightarrow> int \<Rightarrow> Memory" where
  "sample_memory i a =
     \<lparr>id' = i, assistant_id = a, content = ''note'', memory_type = ''general'',
      importance = 5, is_shared = False, access_count = 0,
      created_at = ''2024-01-01T00:00:00Z'', updated_at = ''2024-01-01T00:00:00Z'',
      optional_fields = []\<rparr>"

definition filters_for :: "int \<Rightarrow> MemoryFilters" where
  "filters_for a = no_filters\<lparr>assistant_id_f := Given a\<rparr>"

definition sample_cache :: query_cache where
  "sample_cache =
     [MEMORY_KEYS_list (filters_for 7) \<mapsto> fresh_entry (OtherData (JArr [])),
      MEMORY_KEYS_list (filters_for 9) \<mapsto> fresh_entry (OtherData (JArr [])),
      MEMORY_KEYS_stats 7 \<mapsto> fresh_entry (OtherData (JObj [])),
      MEMORY_KEYS_stats 9 \<mapsto> fresh_entry (OtherData (JObj [])),
      MEMORY_KEYS_detail 42 \<mapsto> fresh_entry (AMemory (sample_memory 42 7))]"

definition sample_app :: app where
  "sample_app =
     \<lparr>cache = sample_cache, toasts = [], requests = [], app_console = [],
      ws = connected_channel, clock = 1700000060000, outstanding = []\<rparr>"

definition sample_request :: CreateMemoryRequest where
  "sample_request = \<lparr>assistant_id_r = 7, content_r = ''note'', optional_fields_r = []\<rparr>"



definition not_found :: AxiosError where
  "not_found =
     \<lparr>message = Some ''Request failed with status code 404'',
      response = Some (404, \<lparr>detail = Some ''Memory not found'', error_text = None,
                             details = None\<rparr>),
      request = True\<rparr>"

section \<open>The invariant of the channel\<close>

text \<open>
  Whenever the socket held in \<open>wsRef\<close> is open the hook reports \<open>Connected\<close>; and a hook
  whose address cannot be constructed never holds a socket.
\<close>

definition channel_inv :: "ws_options \<Rightarrow> ws_hook \<Rightarrow> bool" where
  "channel_inv opts st =
     ((wsRef_readyState st = Some OPEN \<longrightarrow> connectionState st = Connected) \<and>
      (\<not> url_ok opts \<longrightarrow> wsRef st = None))"

section \<open>Properties of the channel\<close>

lemma channel_inv_initial: "channel_inv opts (initial cid)"
  by (simp add: channel_inv_def initial_def wsRef_readyState_def)

lemma channel_inv_connect:
  assumes "channel_inv opts st"
  shows "channel_inv opts (connect opts st)"
  using assms
  by (auto simp: channel_inv_def connect_def wsRef_readyState_def readyState_def nth_append)

lemma channel_inv_onclose:
  "\<not> url_ok opts \<longrightarrow> wsRef st = None \<Longrightarrow> channel_inv opts (ws_onclose opts st)"
  by (simp add: channel_inv_def ws_onclose_def Let_def wsRef_readyState_def)

lemma channel_inv_disconnect: "channel_inv opts (disconnect st)"
  by (simp add: channel_inv_def disconnect_def Let_def wsRef_readyState_def split: option.splits)

lemma channel_inv_fire:
  assumes "channel_inv opts st"
  shows "channel_inv opts (fire parse opts e st)"
proof (cases e)
  case (Opened s now)
  with assms show ?thesis
    by (simp add: fire_def ws_onopen_def channel_inv_def)
next
  case (Message s payload)
  with assms show ?thesis
    by (auto simp: fire_def ws_onmessage_def channel_inv_def wsRef_readyState_def readyState_def
             split: sum.splits option.splits)
next
  case (Closed s)
  have "channel_inv opts (ws_onclose opts (st\<lparr>sockets := (sockets st)[s := CLOSED]\<rparr>))"
    using assms by (intro channel_inv_onclose) (simp add: channel_inv_def)
  with Closed show ?thesis by (simp add: fire_def)
next
  case (Failed s)
  have "channel_inv opts
          (ws_onclose opts (ws_onerror (st\<lparr>sockets := (sockets st)[s := CLOSED]\<rparr>)))"
    using assms by (intro channel_inv_onclose) (simp add: channel_inv_def ws_onerror_def)
  with Failed show ?thesis by (simp add: fire_def)
next
  case (Timeout t)
  have "channel_inv opts (st\<lparr>pending := clearTimeout t (pending st)\<rparr>)"
    using assms
    by (auto simp: channel_inv_def wsRef_readyState_def readyState_def split: option.splits)
  then show ?thesis
    using assms Timeout by (simp add: fire_def channel_inv_connect)
next
  case (PingTick now)
  with assms show ?thesis
    by (auto simp: fire_def sendPing_def sendMessage_def channel_inv_def wsRef_readyState_def
             readyState_def
             split: sum.splits option.splits)
next
  case CallConnect
  with assms show ?thesis by (simp add: fire_def channel_inv_connect)
next
  case CallDisconnect
  then show ?thesis by (simp add: fire_def channel_inv_disconnect)
next
  case (CallSend m)
  with assms show ?thesis
    by (auto simp: fire_def sendMessage_def channel_inv_def wsRef_readyState_def readyState_def
             split: sum.splits option.splits)
qed

lemma channel_inv_run:
  "channel_inv opts st \<Longrightarrow> channel_inv opts (run parse opts es st)"
  by (induction es arbitrary: st) (simp_all add: channel_inv_fire)

lemma sendMessage_not_open:
  "wsRef_readyState st \<noteq> Some OPEN \<Longrightarrow> sendMessage m st = (Inr False, st)"
  by (simp add: sendMessage_def wsRef_readyState_def split: option.splits)

lemma sendMessage_true_open:
  "fst (sendMessage m st) = Inr True \<Longrightarrow> wsRef_readyState st = Some OPEN \<and> serialisable m"
  by (auto simp: sendMessage_def wsRef_readyState_def JSON_stringify_def
           split: option.splits if_splits)

lemma sendMessage_throws_open:
  "fst (sendMessage m st) = Inl x \<Longrightarrow> wsRef_readyState st = Some OPEN \<and> \<not> serialisable m"
  by (auto simp: sendMessage_def wsRef_readyState_def JSON_stringify_def
           split: option.splits if_splits)

lemma attempts_fire:
  "\<not> is_open_event e \<Longrightarrow> reconnectAttemptsRef st \<le> reconnectAttemptsRef (fire parse opts e st)"
  by (cases e)
     (auto simp: is_open_event_def fire_def ws_onmessage_def ws_onclose_def ws_onerror_def
        connect_def disconnect_def sendMessage_def sendPing_def JSON_stringify_def Let_def
        split: sum.splits option.splits)

lemma attempts_run:
  "list_all (\<lambda>e. \<not> is_open_event e) es \<Longrightarrow>
   reconnectAttemptsRef st \<le> reconnectAttemptsRef (run parse opts es st)"
proof (induction es arbitrary: st)
  case Nil
  then show ?case by simp
next
  case (Cons e es)
  then have "reconnectAttemptsRef st \<le> reconnectAttemptsRef (fire parse opts e st)"
    by (simp add: attempts_fire)
  also have "\<dots> \<le> reconnectAttemptsRef (run parse opts es (fire parse opts e st))"
    using Cons by simp
  finally show ?case by simp
qed

lemma timeouts_fire_exhausted:
  "\<not> is_open_event e \<Longrightarrow> maxReconnectAttempts opts \<le> int (reconnectAttemptsRef st) \<Longrightarrow>
   timeouts_set (fire parse opts e st) = timeouts_set st"
  by (cases e)
     (auto simp: is_open_event_def fire_def ws_onmessage_def ws_onclose_def ws_onerror_def
        connect_def disconnect_def sendMessage_def sendPing_def JSON_stringify_def Let_def
        split: sum.splits option.splits)

lemma timeouts_run_exhausted:
  "list_all (\<lambda>e. \<not> is_open_event e) es \<Longrightarrow>
   maxReconnectAttempts opts \<le> int (reconnectAttemptsRef st) \<Longrightarrow>
   timeouts_set (run parse opts es st) = timeouts_set st"
proof (induction es arbitrary: st)
  case Nil
  then show ?case by simp
next
  case (Cons e es)
  have ne: "\<not> is_open_event e" and rest: "list_all (\<lambda>e. \<not> is_open_event e) es"
    using Cons.prems(1) by simp_all
  have "reconnectAttemptsRef st \<le> reconnectAttemptsRef (fire parse opts e st)"
    using ne by (rule attempts_fire)
  then have "maxReconnectAttempts opts \<le> int (reconnectAttemptsRef (fire parse opts e st))"
    using Cons.prems(2) by linarith
  then have "timeouts_set (run parse opts es (fire parse opts e st)) =
             timeouts_set (fire parse opts e st)"
    using Cons.IH rest by blast
  then show ?case
    using ne Cons.prems(2) by (simp add: timeouts_fire_exhausted)
qed

lemma quiet_channel_waits_for_caller:
  assumes "pending st = []" and "list_all (\<lambda>r. r = CLOSED) (sockets st)"
    and "\<not> isConnected st" and "possible e st"
  shows "is_call e"
proof (cases e)
  case (Opened s now)
  with assms show ?thesis
    by (auto simp: possible_def readyState_def list_all_length split: if_splits)
next
  case (Message s payload)
  with assms show ?thesis
    by (auto simp: possible_def readyState_def list_all_length split: if_splits)
next
  case (Closed s)
  with assms show ?thesis
    by (auto simp: possible_def readyState_def list_all_length split: if_splits)
next
  case (Failed s)
  with assms show ?thesis
    by (auto simp: possible_def readyState_def list_all_length split: if_splits)
next
  case (Timeout t)
  with assms show ?thesis by (simp add: possible_def)
next
  case (PingTick now)
  with assms show ?thesis by (simp add: possible_def)
qed (simp_all add: is_call_def)

lemmas channel_steps =
  fire_def connect_def ws_onopen_def ws_onclose_def ws_onerror_def ws_onmessage_def
  disconnect_def ws_close_def clearTimeout_def wsRef_readyState_def readyState_def
  possible_def initial_def default_options_def connection_info_def Let_def

lemma refused_closed_final:
  fixes parse cid
  defines "final \<equiv> run parse default_options (refused_six_times Closed) (initial cid)"
  shows "timeouts_set final = [3000, 3000, 3000, 3000, 3000]"
    and "pending final = []"
    and "connectionState final = Disconnected"
    and "isConnected final = False"
    and "wsRef final = None"
    and "reconnectAttemptsRef final = 5"
    and "sockets final = [CLOSED, CLOSED, CLOSED, CLOSED, CLOSED, CLOSED]"
  by (simp_all add: final_def refused_six_times_def channel_steps)

lemma refused_failed_final:
  fixes parse cid
  defines "final \<equiv> run parse default_options (refused_six_times Failed) (initial cid)"
  shows "timeouts_set final = [3000, 3000, 3000, 3000, 3000]"
    and "pending final = []"
    and "connectionState final = Disconnected"
    and "isConnected final = False"
    and "wsRef final = None"
    and "reconnectAttemptsRef final = 5"
    and "sockets final = [CLOSED, CLOSED, CLOSED, CLOSED, CLOSED, CLOSED]"
  by (simp_all add: final_def refused_six_times_def channel_steps)

lemma refused_feasible:
  "feasible parse default_options (refused_six_times Closed) (initial cid)"
  "feasible parse default_options (refused_six_times Failed) (initial cid)"
  by (simp_all add: refused_six_times_def channel_steps)

subsection \<open>Reconnecting\<close>

text \<open>
  Against C3 as stated: when each of the six connections opens before the server closes it,
  \<^verbatim>\<open>onopen\<close> resets the counter every time, all six closes schedule a reconnect, and one is
  still pending at the end.
\<close>

theorem six_open_close_cycles_schedule_six_reconnects:
  "feasible sample_parse default_options (opened_and_closed_six_times ''t'') (initial ''client-1'') \<and>
   timeouts_set (run sample_parse default_options (opened_and_closed_six_times ''t'')
                   (initial ''client-1'')) = [3000, 3000, 3000, 3000, 3000, 3000] \<and>
   pending (run sample_parse default_options (opened_and_closed_six_times ''t'')
              (initial ''client-1'')) = [(6, 3000)] \<and>
   reconnectAttemptsRef (run sample_parse default_options (opened_and_closed_six_times ''t'')
              (initial ''client-1'')) = 1"
  by (simp add: opened_and_closed_six_times_def channel_steps)

text \<open>
  C3, amended: with the default ceiling of 5 and interval of 3000 ms, six connection attempts
  in a row that end without having opened schedule exactly five reconnects, each with a delay
  of 3000 ms; the channel is then disconnected with no timer pending and no live socket, so
  that only a call of its owner can happen next, and \<^verbatim>\<open>connect()\<close> starts connecting again.
\<close>

theorem six_refused_attempts_schedule_five_reconnects:
  fixes parse cid ending
  assumes "ending = Closed \<or> ending = Failed"
  defines "final \<equiv> run parse default_options (refused_six_times ending) (initial cid)"
  shows "feasible parse default_options (refused_six_times ending) (initial cid) \<and>
         timeouts_set final = [3000, 3000, 3000, 3000, 3000] \<and>
         pending final = [] \<and>
         connectionState final = Disconnected \<and>
         isConnected final = False \<and>
         wsRef final = None \<and>
         reconnectAttemptsRef final = 5 \<and>
         (possible e final \<longrightarrow> is_call e) \<and>
         connectionState (fire parse default_options CallConnect final) = Connecting"
proof -
  have facts:
    "timeouts_set final = [3000, 3000, 3000, 3000, 3000]" "pending final = []"
    "connectionState final = Disconnected" "isConnected final = False" "wsRef final = None"
    "reconnectAttemptsRef final = 5"
    "sockets final = [CLOSED, CLOSED, CLOSED, CLOSED, CLOSED, CLOSED]"
    using assms(1) unfolding final_def
    by (auto simp: refused_closed_final refused_failed_final)
  have "possible e final \<longrightarrow> is_call e"
    using quiet_channel_waits_for_caller [of final e] facts by simp
  moreover have "feasible parse default_options (refused_six_times ending) (initial cid)"
    using assms(1) refused_feasible by blast
  moreover have "connectionState (fire parse default_options CallConnect final) = Connecting"
    using facts
    by (simp add: fire_def connect_def wsRef_readyState_def default_options_def)
  ultimately show ?thesis
    using facts by blast
qed

theorem six_refused_attempts_witness:
  "timeouts_set (run sample_parse default_options (refused_six_times Failed) (initial ''client-1''))
     = [3000, 3000, 3000, 3000, 3000] \<and>
   pending (run sample_parse default_options (refused_six_times Failed) (initial ''client-1'')) = [] \<and>
   possible CallConnect
     (run sample_parse default_options (refused_six_times Failed) (initial ''client-1'')) \<and>
   is_call CallConnect"
  using six_refused_attempts_schedule_five_reconnects
          [where ending = Failed and e = CallConnect and parse = sample_parse
             and cid = "''client-1''"]
  by (simp add: possible_def)

subsection \<open>Calling \<^verbatim>\<open>connect\<close> again\<close>

text \<open>While the current socket is connecting, \<^verbatim>\<open>connect\<close> changes nothing.\<close>

lemma connect_noop_while_connecting:
  "wsRef_readyState st = Some CONNECTING \<Longrightarrow> connect opts st = st"
  by (simp add: connect_def)

text \<open>
  C4 fails on the code for a connected channel: the guard of \<^verbatim>\<open>connect\<close> tests for a
  connecting socket only, so a call on a connected channel constructs a second socket, leaves
  the first one open, and reports \<open>Connecting\<close>.
\<close>

theorem connect_while_connected_opens_second_socket:
  "connectionState connected_channel = Connected \<and>
   wsRef connected_channel = Some 0 \<and>
   sockets connected_channel = [OPEN] \<and>
   connect default_options connected_channel \<noteq> connected_channel \<and>
   sockets (connect default_options connected_channel) = [OPEN, CONNECTING] \<and>
   wsRef (connect default_options connected_channel) = Some 1 \<and>
   connectionState (connect default_options connected_channel) = Connecting"
  by (simp add: connected_channel_def channel_steps)

theorem connect_while_connected_witness:
  "length (sockets (connect default_options connected_channel)) = 2 \<and>
   sockets (connect default_options connected_channel) ! 0 = OPEN"
  using connect_while_connected_opens_second_socket by simp

subsection \<open>Sending\<close>

text \<open>
  Against C6 as stated: on a connected channel, \<^verbatim>\<open>sendMessage\<close> of a value that
  \<^verbatim>\<open>JSON.stringify\<close> refuses lets the TypeError escape to the caller.
\<close>

theorem send_of_bigint_throws_when_connected:
  "connectionState connected_channel = Connected \<and>
   fst (sendMessage (JBigInt 1) connected_channel) = Inl TypeError"
  by (simp add: connected_channel_def channel_steps sendMessage_def JSON_stringify_def)

text \<open>
  C6, amended: after any run of the channel, \<^verbatim>\<open>sendMessage\<close> returns false and changes
  nothing whenever the channel is not in the connected state; it returns true only in the
  connected state; and it throws only in the connected state, for a message that
  \<^verbatim>\<open>JSON.stringify\<close> refuses: a serialisable message never makes it throw.
\<close>

theorem send_is_best_effort:
  fixes parse opts es cid
  defines "st \<equiv> run parse opts es (initial cid)"
  shows "(connectionState st \<noteq> Connected \<longrightarrow> sendMessage m st = (Inr False, st)) \<and>
     (fst (sendMessage m st) = Inr True \<longrightarrow> connectionState st = Connected) \<and>
     (fst (sendMessage m st) = Inr False \<longrightarrow> snd (sendMessage m st) = st) \<and>
     (serialisable m \<longrightarrow> fst (sendMessage m st) = Inr True \<or> fst (sendMessage m st) = Inr False) \<and>
     (fst (sendMessage m st) = Inl x \<longrightarrow> connectionState st = Connected \<and> \<not> serialisable m)"
proof -
  have inv: "channel_inv opts st"
    unfolding st_def by (rule channel_inv_run [OF channel_inv_initial])
  then have open_conn: "wsRef_readyState st = Some OPEN \<Longrightarrow> connectionState st = Connected"
    by (simp add: channel_inv_def)
  have a: "connectionState st \<noteq> Connected \<longrightarrow> sendMessage m st = (Inr False, st)"
    using open_conn sendMessage_not_open by blast
  have b: "fst (sendMessage m st) = Inr True \<longrightarrow> connectionState st = Connected"
    using open_conn sendMessage_true_open by blast
  have c: "fst (sendMessage m st) = Inr False \<longrightarrow> snd (sendMessage m st) = st"
    by (auto simp: sendMessage_def JSON_stringify_def split: option.splits if_splits)
  have d: "serialisable m \<longrightarrow>
           fst (sendMessage m st) = Inr True \<or> fst (sendMessage m st) = Inr False"
    by (auto simp: sendMessage_def JSON_stringify_def split: option.splits)
  have e: "fst (sendMessage m st) = Inl x \<longrightarrow> connectionState st = Connected \<and> \<not> serialisable m"
    using open_conn sendMessage_throws_open by blast
  from a b c d e show ?thesis by blast
qed

theorem send_is_best_effort_witness:
  "connectionState (initial ''client-1'') \<noteq> Connected \<and>
   sendMessage (JStr ''hello'') (initial ''client-1'') = (Inr False, initial ''client-1'') \<and>
   serialisable (JStr ''hello'') \<and>
   fst (sendMessage (JStr ''hello'') connected_channel) = Inr True \<and>
   connectionState connected_channel = Connected \<and>
   fst (sendMessage (JBigInt 1) connected_channel) = Inl TypeError \<and>
   \<not> serialisable (JBigInt 1)"
proof -
  note idle = send_is_best_effort
    [where parse = sample_parse and opts = default_options and es = "[]"
       and cid = "''client-1''" and m = "JStr ''hello''", unfolded run.simps]
  note up = send_is_best_effort
    [where parse = sample_parse and opts = default_options
       and es = "[CallConnect, Opened 0 ''2024-01-01T00:00:00Z'']"
       and cid = "''client-1''" and m = "JStr ''hello''", folded connected_channel_def]
  have n: "connectionState (initial ''client-1'') \<noteq> Connected"
    by (simp add: initial_def)
  have t: "fst (sendMessage (JStr ''hello'') connected_channel) = Inr True"
    by (simp add: connected_channel_def channel_steps sendMessage_def JSON_stringify_def)
  have x: "fst (sendMessage (JBigInt 1) connected_channel) = Inl TypeError"
    by (simp add: connected_channel_def channel_steps sendMessage_def JSON_stringify_def)
  have "sendMessage (JStr ''hello'') (initial ''client-1'') = (Inr False, initial ''client-1'')"
    using idle n by blast
  moreover have "connectionState connected_channel = Connected"
    using up t by blast
  moreover have "serialisable (JStr ''hello'')" "\<not> serialisable (JBigInt 1)"
    by simp_all
  ultimately show ?thesis
    using n t x by blast
qed

subsection \<open>Receiving\<close>

text \<open>
  C7: a payload that \<^verbatim>\<open>JSON.parse\<close> rejects is logged and dropped. The hook's state after the
  message event is its state before with one more console line: \<open>lastMessage\<close> is unchanged,
  no observer is called, the connection and its sockets are as they were, and no reconnect is
  counted or scheduled.
\<close>

theorem malformed_payload_is_logged_and_dropped:
  assumes "parse payload = Inl err"
  shows "fire parse opts (Message s payload) st =
           st\<lparr>console := console st @ [FailedToParse err]\<rparr> \<and>
         lastMessage (fire parse opts (Message s payload) st) = lastMessage st \<and>
         observed (fire parse opts (Message s payload) st) = observed st \<and>
         connectionState (fire parse opts (Message s payload) st) = connectionState st \<and>
         wsRef (fire parse opts (Message s payload) st) = wsRef st \<and>
         sockets (fire parse opts (Message s payload) st) = sockets st \<and>
         reconnectAttemptsRef (fire parse opts (Message s payload) st) = reconnectAttemptsRef st \<and>
         timeouts_set (fire parse opts (Message s payload) st) = timeouts_set st \<and>
         pending (fire parse opts (Message s payload) st) = pending st"
  using assms by (simp add: fire_def ws_onmessage_def)

theorem malformed_payload_witness:
  "sample_parse ''not json'' = Inl SyntaxError \<and>
   possible (Message 0 ''not json'') connected_channel \<and>
   fire sample_parse default_options (Message 0 ''not json'') connected_channel =
     connected_channel\<lparr>console := [FailedToParse SyntaxError]\<rparr> \<and>
   lastMessage (fire sample_parse default_options (Message 0 ''not json'') connected_channel) = JNull"
proof -
  have p: "sample_parse ''not json'' = Inl SyntaxError"
    by (simp add: sample_parse_def deleted_payload_def)
  have c: "console connected_channel = []" "lastMessage connected_channel = JNull"
    "possible (Message 0 ''not json'') connected_channel"
    by (simp_all add: connected_channel_def channel_steps)
  show ?thesis
    using malformed_payload_is_logged_and_dropped
            [where parse = sample_parse and payload = "''not json''" and err = SyntaxError
               and opts = default_options and s = 0 and st = connected_channel] p c
    by simp
qed

subsection \<open>The attempt counter\<close>

text \<open>
  C9: \<^verbatim>\<open>disconnect\<close> and \<^verbatim>\<open>connect\<close> leave the reconnect counter as it is, an open event sets
  it to zero, and no other event lowers it; so over any run without an open event the counter
  does not decrease, and once it has reached the ceiling no further reconnect is scheduled.
\<close>

theorem attempts_reset_only_by_open:
  "reconnectAttemptsRef (disconnect st) = reconnectAttemptsRef st \<and>
   reconnectAttemptsRef (connect opts st) = reconnectAttemptsRef st \<and>
   reconnectAttemptsRef (fire parse opts (Opened s now) st) = 0 \<and>
   (reconnectAttemptsRef (fire parse opts e st) < reconnectAttemptsRef st \<longrightarrow> is_open_event e) \<and>
   (list_all (\<lambda>e. \<not> is_open_event e) es \<longrightarrow>
      reconnectAttemptsRef st \<le> reconnectAttemptsRef (run parse opts es st)) \<and>
   (list_all (\<lambda>e. \<not> is_open_event e) es \<and>
    maxReconnectAttempts opts \<le> int (reconnectAttemptsRef st) \<longrightarrow>
      timeouts_set (run parse opts es st) = timeouts_set st)"
proof -
  have a: "reconnectAttemptsRef (disconnect st) = reconnectAttemptsRef st"
    by (simp add: disconnect_def Let_def split: option.splits)
  have b: "reconnectAttemptsRef (connect opts st) = reconnectAttemptsRef st"
    by (simp add: connect_def)
  have c: "reconnectAttemptsRef (fire parse opts (Opened s now) st) = 0"
    by (simp add: fire_def ws_onopen_def)
  have d: "reconnectAttemptsRef (fire parse opts e st) < reconnectAttemptsRef st \<longrightarrow>
           is_open_event e"
    using attempts_fire [of e st parse opts] by (cases "is_open_event e") simp_all
  show ?thesis
    using a b c d attempts_run timeouts_run_exhausted by blast
qed

theorem attempts_reset_only_by_open_witness:
  "reconnectAttemptsRef exhausted_channel = 5 \<and>
   list_all (\<lambda>e. \<not> is_open_event e) [CallDisconnect, CallConnect, Failed 6] \<and>
   maxReconnectAttempts default_options \<le> int (reconnectAttemptsRef exhausted_channel) \<and>
   reconnectAttemptsRef
     (run sample_parse default_options [CallDisconnect, CallConnect, Failed 6] exhausted_channel) = 5 \<and>
   timeouts_set
     (run sample_parse default_options [CallDisconnect, CallConnect, Failed 6] exhausted_channel) =
     timeouts_set exhausted_channel \<and>
   reconnectAttemptsRef
     (fire sample_parse default_options (Opened 6 ''t'') exhausted_channel)
     < reconnectAttemptsRef exhausted_channel \<and>
   is_open_event (Opened 6 ''t'')"
proof -
  have n: "reconnectAttemptsRef exhausted_channel = 5"
    by (simp add: exhausted_channel_def refused_failed_final)
  have l: "list_all (\<lambda>e. \<not> is_open_event e) [CallDisconnect, CallConnect, Failed 6]"
    by (simp add: is_open_event_def)
  have m: "maxReconnectAttempts default_options \<le> int (reconnectAttemptsRef exhausted_channel)"
    by (simp add: n default_options_def)
  have r: "reconnectAttemptsRef
     (run sample_parse default_options [CallDisconnect, CallConnect, Failed 6] exhausted_channel) = 5"
    by (simp add: exhausted_channel_def refused_six_times_def channel_steps)
  have o: "is_open_event (Opened 6 ''t'')"
    by (simp add: is_open_event_def)
  show ?thesis
    using attempts_reset_only_by_open
            [of exhausted_channel default_options sample_parse 6 "''t''" "Opened 6 ''t''"
                "[CallDisconnect, CallConnect, Failed 6]"]
          n l m r o
    by simp
qed

section \<open>Properties of the cache rules\<close>

lemma invalidateQueries_apply:
  "invalidateQueries f c k =
     (case c k of None \<Rightarrow> None
      | Some q \<Rightarrow> if matchQuery f k then Some (q\<lparr>isInvalidated := True\<rparr>) else Some q)"
  by (simp add: invalidateQueries_def)

lemma dom_invalidateQueries: "dom (invalidateQueries f c) = dom c"
  by (auto simp: invalidateQueries_def dom_def split: option.splits)

lemmas memory_keys =
  MEMORY_KEYS_all_def MEMORY_KEYS_lists_def MEMORY_KEYS_list_def MEMORY_KEYS_details_def
  MEMORY_KEYS_detail_def MEMORY_KEYS_stats_def MEMORY_KEYS_recent_def optional_id_def

lemma match_list_key:
  "matchQuery (ByKey MEMORY_KEYS_lists) (MEMORY_KEYS_list filters)"
  "\<not> matchQuery (ByKey (MEMORY_KEYS_stats a)) (MEMORY_KEYS_list filters)"
  "\<not> matchQuery (ByKey (MEMORY_KEYS_recent (Some a))) (MEMORY_KEYS_list filters)"
  by (simp_all add: matchQuery_def memory_keys)

lemma match_stats_key:
  "\<not> matchQuery (ByKey MEMORY_KEYS_lists) (MEMORY_KEYS_stats b)"
  "matchQuery (ByKey (MEMORY_KEYS_stats a)) (MEMORY_KEYS_stats b) = (b = a)"
  "\<not> matchQuery (ByKey (MEMORY_KEYS_recent (Some a))) (MEMORY_KEYS_stats b)"
  by (simp_all add: matchQuery_def memory_keys)

lemma match_recent_key:
  "\<not> matchQuery (ByKey MEMORY_KEYS_lists) (MEMORY_KEYS_recent x)"
  "\<not> matchQuery (ByKey (MEMORY_KEYS_stats a)) (MEMORY_KEYS_recent x)"
  "matchQuery (ByKey (MEMORY_KEYS_recent (Some a))) (MEMORY_KEYS_recent (Some a))"
  by (simp_all add: matchQuery_def memory_keys)

lemma match_detail_key:
  "\<not> matchQuery (ByKey MEMORY_KEYS_lists) (MEMORY_KEYS_detail i)"
  "\<not> matchQuery (ByKey (MEMORY_KEYS_stats a)) (MEMORY_KEYS_detail i)"
  "\<not> matchQuery (ByKey (MEMORY_KEYS_recent (Some a))) (MEMORY_KEYS_detail i)"
  by (simp_all add: matchQuery_def memory_keys)

lemma useMutation_once:
  "useMutation fn onS onE v server st =
     (case server 0 of
        Inr r \<Rightarrow> (Inr r, onS r v (st\<lparr>requests := requests st @ [fn v], toasts := toasts st\<rparr>))
      | Inl e \<Rightarrow> (Inl e, onE e (st\<lparr>requests := requests st @ [fn v],
                                   toasts := toasts st @ interceptor_toasts e\<rparr>)))"
  by (simp add: useMutation_def mutation_retry_def queryClient_defaults_def failure_toasts_def
           split: sum.splits)

lemma cache_after_create:
  assumes "server 0 = Inr newMemory"
  shows "cache (snd (useCreateMemory variables server st)) =
           invalidateQueries (ByKey (MEMORY_KEYS_recent (Some (assistant_id newMemory))))
            (invalidateQueries (ByKey (MEMORY_KEYS_stats (assistant_id newMemory)))
              (invalidateQueries (ByKey MEMORY_KEYS_lists) (cache st)))"
  using assms by (simp add: useCreateMemory_def useMutation_once useCreateMemory_onSuccess_def)

subsection \<open>Creating a memory\<close>

text \<open>
  Against C2 as stated: after a successful creation for assistant 7 the list entry filtered by
  assistant 9, fresh before, is invalidated.
\<close>

theorem create_for_7_invalidates_list_of_9:
  "map_option isInvalidated (cache sample_app (MEMORY_KEYS_list (filters_for 9))) = Some False \<and>
   map_option isInvalidated
     (cache (snd (useCreateMemory sample_request (\<lambda>i. Inr (sample_memory 1 7)) sample_app))
        (MEMORY_KEYS_list (filters_for 9))) = Some True"
proof -
  have before: "cache sample_app (MEMORY_KEYS_list (filters_for 9)) =
                  Some (fresh_entry (OtherData (JArr [])))"
    by (simp add: sample_app_def sample_cache_def memory_keys filters_for_def no_filters_def)
  have after: "cache (snd (useCreateMemory sample_request (\<lambda>i. Inr (sample_memory 1 7)) sample_app)) =
           invalidateQueries (ByKey (MEMORY_KEYS_recent (Some (assistant_id (sample_memory 1 7)))))
            (invalidateQueries (ByKey (MEMORY_KEYS_stats (assistant_id (sample_memory 1 7))))
              (invalidateQueries (ByKey MEMORY_KEYS_lists) (cache sample_app)))"
    by (rule cache_after_create) simp
  show ?thesis
    unfolding after
    by (simp add: invalidateQueries_apply before match_list_key fresh_entry_def)
qed

text \<open>
  C2, amended: a successful creation invalidates every memory-list entry, whatever its
  filter, and the stats and recent entries of the new memory's assistant; the stats entries of
  other assistants and the single-memory entries are untouched, and no entry is added or
  removed.
\<close>

theorem create_invalidates_every_list:
  fixes variables server st
  assumes "server 0 = Inr newMemory"
  defines "after \<equiv> cache (snd (useCreateMemory variables server st))"
  shows
    "(cache st (MEMORY_KEYS_list filters) = Some q \<longrightarrow>
        after (MEMORY_KEYS_list filters) = Some (q\<lparr>isInvalidated := True\<rparr>)) \<and>
     (cache st (MEMORY_KEYS_stats (assistant_id newMemory)) = Some q' \<longrightarrow>
        after (MEMORY_KEYS_stats (assistant_id newMemory)) = Some (q'\<lparr>isInvalidated := True\<rparr>)) \<and>
     (cache st (MEMORY_KEYS_recent (Some (assistant_id newMemory))) = Some q'' \<longrightarrow>
        after (MEMORY_KEYS_recent (Some (assistant_id newMemory))) =
          Some (q''\<lparr>isInvalidated := True\<rparr>)) \<and>
     (b \<noteq> assistant_id newMemory \<longrightarrow>
        after (MEMORY_KEYS_stats b) = cache st (MEMORY_KEYS_stats b)) \<and>
     after (MEMORY_KEYS_detail i) = cache st (MEMORY_KEYS_detail i) \<and>
     dom after = dom (cache st)"
proof -
  have eq: "after =
           invalidateQueries (ByKey (MEMORY_KEYS_recent (Some (assistant_id newMemory))))
            (invalidateQueries (ByKey (MEMORY_KEYS_stats (assistant_id newMemory)))
              (invalidateQueries (ByKey MEMORY_KEYS_lists) (cache st)))"
    unfolding after_def using assms(1) by (rule cache_after_create)
  have lists: "cache st (MEMORY_KEYS_list filters) = Some q \<longrightarrow>
        after (MEMORY_KEYS_list filters) = Some (q\<lparr>isInvalidated := True\<rparr>)"
    by (simp add: eq invalidateQueries_apply match_list_key)
  have stats: "cache st (MEMORY_KEYS_stats (assistant_id newMemory)) = Some q' \<longrightarrow>
        after (MEMORY_KEYS_stats (assistant_id newMemory)) = Some (q'\<lparr>isInvalidated := True\<rparr>)"
    by (simp add: eq invalidateQueries_apply match_stats_key)
  have recent: "cache st (MEMORY_KEYS_recent (Some (assistant_id newMemory))) = Some q'' \<longrightarrow>
        after (MEMORY_KEYS_recent (Some (assistant_id newMemory))) =
          Some (q''\<lparr>isInvalidated := True\<rparr>)"
    by (simp add: eq invalidateQueries_apply match_recent_key)
  have other: "b \<noteq> assistant_id newMemory \<longrightarrow>
        after (MEMORY_KEYS_stats b) = cache st (MEMORY_KEYS_stats b)"
    by (simp add: eq invalidateQueries_apply match_stats_key split: option.splits)
  have detail: "after (MEMORY_KEYS_detail i) = cache st (MEMORY_KEYS_detail i)"
    by (simp add: eq invalidateQueries_apply match_detail_key split: option.splits)
  have d: "dom after = dom (cache st)"
    by (simp add: eq dom_invalidateQueries)
  from lists stats recent other detail d show ?thesis by blast
qed

theorem create_invalidates_every_list_witness:
  "cache (snd (useCreateMemory sample_request (\<lambda>i. Inr (sample_memory 1 7)) sample_app))
     (MEMORY_KEYS_list (filters_for 7)) =
     Some ((fresh_entry (OtherData (JArr [])))\<lparr>isInvalidated := True\<rparr>) \<and>
   cache (snd (useCreateMemory sample_request (\<lambda>i. Inr (sample_memory 1 7)) sample_app))
     (MEMORY_KEYS_stats 7) =
     Some ((fresh_entry (OtherData (JObj [])))\<lparr>isInvalidated := True\<rparr>) \<and>
   cache (snd (useCreateMemory sample_request (\<lambda>i. Inr (sample_memory 1 7)) sample_app))
     (MEMORY_KEYS_stats 9) = Some (fresh_entry (OtherData (JObj [])))"
proof -
  have a: "assistant_id (sample_memory 1 7) = 7"
    by (simp add: sample_memory_def)
  have l7: "cache sample_app (MEMORY_KEYS_list (filters_for 7)) =
              Some (fresh_entry (OtherData (JArr [])))"
    by (simp add: sample_app_def sample_cache_def memory_keys filters_for_def no_filters_def)
  have s7: "cache sample_app (MEMORY_KEYS_stats 7) = Some (fresh_entry (OtherData (JObj [])))"
    by (simp add: sample_app_def sample_cache_def memory_keys)
  have s9: "cache sample_app (MEMORY_KEYS_stats 9) = Some (fresh_entry (OtherData (JObj [])))"
    by (simp add: sample_app_def sample_cache_def memory_keys)
  have n: "(9::int) \<noteq> 7"
    by simp
  note w = create_invalidates_every_list
    [where server = "\<lambda>i. Inr (sample_memory 1 7)" and newMemory = "sample_memory 1 7"
       and variables = sample_request and st = sample_app
       and filters = "filters_for 7" and q = "fresh_entry (OtherData (JArr []))"
       and q' = "fresh_entry (OtherData (JObj []))" and b = 9, unfolded a]
  show ?thesis
    using w l7 s7 s9 n by simp
qed

subsection \<open>Failed mutations\<close>

text \<open>
  C5: when the remote write of a create, update or delete fails, the mutation returns the
  error to its caller, exactly one request has been made (no retry), the error is shown (by
  the response interceptor and by the hook's \<^verbatim>\<open>onError\<close>), and the cache is unchanged.
\<close>

theorem failed_mutation_leaves_cache:
  assumes "create_server 0 = Inl e" and "update_server 0 = Inl e" and "delete_server 0 = Inl e"
  shows
    "useCreateMemory new create_server st =
       (Inl e, st\<lparr>requests := requests st @ [createMemory new],
                  toasts := toasts st @ interceptor_toasts e
                            @ [ToastError (or_else (message e) ''Failed to create memory'')]\<rparr>) \<and>
     useUpdateMemory (i, changes) update_server st =
       (Inl e, st\<lparr>requests := requests st @ [updateMemory i changes],
                  toasts := toasts st @ interceptor_toasts e
                            @ [ToastError (or_else (message e) ''Failed to update memory'')]\<rparr>) \<and>
     useDeleteMemory i delete_server st =
       (Inl e, st\<lparr>requests := requests st @ [deleteMemory i],
                  toasts := toasts st @ interceptor_toasts e
                            @ [ToastError (or_else (message e) ''Failed to delete memory'')]\<rparr>) \<and>
     cache (snd (useCreateMemory new create_server st)) = cache st \<and>
     cache (snd (useUpdateMemory (i, changes) update_server st)) = cache st \<and>
     cache (snd (useDeleteMemory i delete_server st)) = cache st"
proof -
  have c: "useCreateMemory new create_server st =
       (Inl e, st\<lparr>requests := requests st @ [createMemory new],
                  toasts := toasts st @ interceptor_toasts e
                            @ [ToastError (or_else (message e) ''Failed to create memory'')]\<rparr>)"
    using assms(1) by (simp add: useCreateMemory_def useMutation_once useCreateMemory_onError_def)
  have u: "useUpdateMemory (i, changes) update_server st =
       (Inl e, st\<lparr>requests := requests st @ [updateMemory i changes],
                  toasts := toasts st @ interceptor_toasts e
                            @ [ToastError (or_else (message e) ''Failed to update memory'')]\<rparr>)"
    using assms(2) by (simp add: useUpdateMemory_def useMutation_once useUpdateMemory_onError_def)
  have d: "useDeleteMemory i delete_server st =
       (Inl e, st\<lparr>requests := requests st @ [deleteMemory i],
                  toasts := toasts st @ interceptor_toasts e
                            @ [ToastError (or_else (message e) ''Failed to delete memory'')]\<rparr>)"
    using assms(3) by (simp add: useDeleteMemory_def useMutation_once useDeleteMemory_onError_def)
  show ?thesis
    unfolding c u d by simp
qed

theorem failed_mutation_witness:
  "useDeleteMemory 42 (\<lambda>n. Inl not_found) sample_app =
     (Inl not_found,
      sample_app\<lparr>requests := [deleteMemory 42],
                  toasts := [ToastError ''Memory not found'',
                             ToastError ''Request failed with status code 404'']\<rparr>) \<and>
   cache (snd (useDeleteMemory 42 (\<lambda>n. Inl not_found) sample_app)) (MEMORY_KEYS_detail 42) =
     Some (fresh_entry (AMemory (sample_memory 42 7)))"
proof -
  have t: "interceptor_toasts not_found = [ToastError ''Memory not found'']"
    "or_else (message not_found) ''Failed to delete memory'' = ''Request failed with status code 404''"
    by (simp_all add: interceptor_toasts_def not_found_def or_else_def)
  have a: "requests sample_app = []" "toasts sample_app = []"
    "cache sample_app (MEMORY_KEYS_detail 42) = Some (fresh_entry (AMemory (sample_memory 42 7)))"
    by (simp_all add: sample_app_def sample_cache_def memory_keys)
  note w = failed_mutation_leaves_cache
    [where create_server = "\<lambda>n. Inl not_found" and update_server = "\<lambda>n. Inl not_found"
       and delete_server = "\<lambda>n. Inl not_found" and e = not_found
       and st = sample_app and i = 42 and new = sample_request and changes = "[]"]
  show ?thesis
    using w t a by simp
qed

subsection \<open>Realtime messages in the application\<close>

lemma App_receive_cache: "cache (App_receive parse s payload st) = cache st"
  by (simp add: App_receive_def App_lastMessage_effect_def Let_def split: sum.splits)

text \<open>
  Against C1 as stated: a \<^verbatim>\<open>memory_deleted\<close> message for memory 42, delivered on the open
  channel, leaves the entry of memory 42 in the cache and the memory list fresh.
\<close>

theorem memory_deleted_message_leaves_cache:
  "possible (Message 0 deleted_payload) (ws sample_app) \<and>
   sample_parse deleted_payload = Inr deleted_message \<and>
   cache (App_receive sample_parse 0 deleted_payload sample_app) (MEMORY_KEYS_detail 42) =
     Some (fresh_entry (AMemory (sample_memory 42 7))) \<and>
   map_option isInvalidated
     (cache (App_receive sample_parse 0 deleted_payload sample_app)
        (MEMORY_KEYS_list (filters_for 7))) = Some False"
proof -
  have "possible (Message 0 deleted_payload) (ws sample_app)"
    by (simp add: sample_app_def connected_channel_def channel_steps)
  moreover have "sample_parse deleted_payload = Inr deleted_message"
    by (simp add: sample_parse_def)
  moreover have "cache sample_app (MEMORY_KEYS_detail 42) =
                   Some (fresh_entry (AMemory (sample_memory 42 7)))"
    by (simp add: sample_app_def sample_cache_def memory_keys)
  moreover have "map_option isInvalidated (cache sample_app (MEMORY_KEYS_list (filters_for 7))) =
                   Some False"
    by (simp add: sample_app_def sample_cache_def memory_keys fresh_entry_def)
  ultimately show ?thesis
    by (simp add: App_receive_cache)
qed

text \<open>
  C1, amended: a realtime message delivered to the application changes no cache entry, issues
  no request and shows no notification; a well-formed message (an object) is stored as
  \<open>lastMessage\<close> and logged.
\<close>

theorem realtime_message_is_only_logged:
  fixes parse s payload st
  defines "after \<equiv> App_receive parse s payload st"
  shows "cache after = cache st \<and>
         requests after = requests st \<and>
         toasts after = toasts st \<and>
         (parse payload = Inr m \<and> is_reference m \<longrightarrow>
            lastMessage (ws after) = m \<and> app_console after = app_console st @ [m])"
proof -
  have "parse payload = Inr m \<and> is_reference m \<longrightarrow>
          lastMessage (ws after) = m \<and> app_console after = app_console st @ [m]"
    by (cases m)
       (simp_all add: after_def App_receive_def App_lastMessage_effect_def Let_def fire_def
          ws_onmessage_def)
  moreover have "cache after = cache st \<and> requests after = requests st \<and> toasts after = toasts st"
    by (simp add: after_def App_receive_def App_lastMessage_effect_def Let_def split: sum.splits)
  ultimately show ?thesis by blast
qed

theorem realtime_message_witness:
  "sample_parse deleted_payload = Inr deleted_message \<and> is_reference deleted_message \<and>
   cache (App_receive sample_parse 0 deleted_payload sample_app) = cache sample_app \<and>
   lastMessage (ws (App_receive sample_parse 0 deleted_payload sample_app)) = deleted_message \<and>
   app_console (App_receive sample_parse 0 deleted_payload sample_app) = [deleted_message]"
proof -
  have p: "sample_parse deleted_payload = Inr deleted_message"
    by (simp add: sample_parse_def)
  have r: "is_reference deleted_message"
    by (simp add: deleted_message_def)
  have c: "app_console sample_app = []"
    by (simp add: sample_app_def)
  note w = realtime_message_is_only_logged
    [where parse = sample_parse and s = 0 and payload = deleted_payload and st = sample_app
       and m = deleted_message]
  show ?thesis
    using w p r c by simp
qed

subsection \<open>Reads with the identifier 0\<close>

lemma useQuery_disabled:
  assumes "\<not> enabled_q opts"
  shows "requests (useQuery opts st) = requests st"
    and "map_option status (cache st (queryHash (queryKey opts))) \<in> {None, Some QIdle} \<Longrightarrow>
         map_option status (cache (useQuery opts st) (queryHash (queryKey opts))) = Some QIdle"
    and "k \<noteq> queryHash (queryKey opts) \<Longrightarrow> cache (useQuery opts st) k = cache st k"
  using assms by (auto simp: useQuery_def Let_def idle_query_def split: option.splits)

lemma useQuery_disabled_funpow:
  assumes "\<not> enabled_q opts"
    and "map_option status (cache st (queryHash (queryKey opts))) \<in> {None, Some QIdle}"
  shows "requests ((useQuery opts ^^ n) st) = requests st \<and>
         map_option status (cache ((useQuery opts ^^ n) st) (queryHash (queryKey opts)))
           \<in> {None, Some QIdle}"
proof (induction n)
  case 0
  then show ?case using assms(2) by simp
next
  case (Suc n)
  then show ?case
    using useQuery_disabled(1,2) [OF assms(1), of "(useQuery opts ^^ n) st"] by simp
qed

text \<open>
  C10: \<^verbatim>\<open>useMemory(0)\<close> and \<^verbatim>\<open>useMemoryStats(0)\<close> are disabled; however often they render,
  no request is issued, and an entry that was absent or idle is idle afterwards.
\<close>

theorem falsy_id_never_fetches:
  "enabled_q (useMemory_options 0 None) = False \<and>
   enabled_q (useMemoryStats_options 0 None) = False \<and>
   requests ((useMemory 0 None ^^ n) st) = requests st \<and>
   requests ((useMemoryStats 0 None ^^ n) st) = requests st \<and>
   (map_option status (cache st (MEMORY_KEYS_detail 0)) \<in> {None, Some QIdle} \<longrightarrow>
      map_option status (cache ((useMemory 0 None ^^ Suc n) st) (MEMORY_KEYS_detail 0))
        = Some QIdle) \<and>
   (map_option status (cache st (MEMORY_KEYS_stats 0)) \<in> {None, Some QIdle} \<longrightarrow>
      map_option status (cache ((useMemoryStats 0 None ^^ Suc n) st) (MEMORY_KEYS_stats 0))
        = Some QIdle)"
proof -
  have m: "\<not> enabled_q (useMemory_options 0 None)"
    "queryHash (queryKey (useMemory_options 0 None)) = MEMORY_KEYS_detail 0"
    by (simp_all add: useMemory_options_def spread_enabled_def queryHash_def memory_keys)
  have t: "\<not> enabled_q (useMemoryStats_options 0 None)"
    "queryHash (queryKey (useMemoryStats_options 0 None)) = MEMORY_KEYS_stats 0"
    by (simp_all add: useMemoryStats_options_def spread_enabled_def queryHash_def memory_keys)
  have fm: "useMemory 0 None = useQuery (useMemory_options 0 None)"
    by (rule ext) (simp add: useMemory_def)
  have ft: "useMemoryStats 0 None = useQuery (useMemoryStats_options 0 None)"
    by (rule ext) (simp add: useMemoryStats_def)
  have rm: "requests ((useMemory 0 None ^^ n) st) = requests st"
  proof (induction n)
    case 0
    show ?case by simp
  next
    case (Suc n)
    then show ?case
      using useQuery_disabled(1) [OF m(1), of "(useMemory 0 None ^^ n) st"] by (simp add: fm)
  qed
  have rt: "requests ((useMemoryStats 0 None ^^ n) st) = requests st"
  proof (induction n)
    case 0
    show ?case by simp
  next
    case (Suc n)
    then show ?case
      using useQuery_disabled(1) [OF t(1), of "(useMemoryStats 0 None ^^ n) st"]
      by (simp add: ft)
  qed
  have im: "map_option status (cache st (MEMORY_KEYS_detail 0)) \<in> {None, Some QIdle} \<longrightarrow>
      map_option status (cache ((useMemory 0 None ^^ Suc n) st) (MEMORY_KEYS_detail 0))
        = Some QIdle"
  proof
    assume "map_option status (cache st (MEMORY_KEYS_detail 0)) \<in> {None, Some QIdle}"
    then have "map_option status (cache ((useMemory 0 None ^^ n) st) (MEMORY_KEYS_detail 0))
                 \<in> {None, Some QIdle}"
      using useQuery_disabled_funpow [OF m(1), of st n] by (simp add: m(2) fm)
    then show "map_option status (cache ((useMemory 0 None ^^ Suc n) st) (MEMORY_KEYS_detail 0))
                 = Some QIdle"
      using useQuery_disabled(2) [OF m(1), of "(useMemory 0 None ^^ n) st"]
      by (simp add: m(2) fm)
  qed
  have it: "map_option status (cache st (MEMORY_KEYS_stats 0)) \<in> {None, Some QIdle} \<longrightarrow>
      map_option status (cache ((useMemoryStats 0 None ^^ Suc n) st) (MEMORY_KEYS_stats 0))
        = Some QIdle"
  proof
    assume "map_option status (cache st (MEMORY_KEYS_stats 0)) \<in> {None, Some QIdle}"
    then have "map_option status (cache ((useMemoryStats 0 None ^^ n) st) (MEMORY_KEYS_stats 0))
                 \<in> {None, Some QIdle}"
      using useQuery_disabled_funpow [OF t(1), of st n] by (simp add: t(2) ft)
    then show "map_option status
                 (cache ((useMemoryStats 0 None ^^ Suc n) st) (MEMORY_KEYS_stats 0)) = Some QIdle"
      using useQuery_disabled(2) [OF t(1), of "(useMemoryStats 0 None ^^ n) st"]
      by (simp add: t(2) ft)
  qed
  from m(1) t(1) rm rt im it show ?thesis by blast
qed

theorem falsy_id_witness:
  "map_option status (cache sample_app (MEMORY_KEYS_detail 0)) \<in> {None, Some QIdle} \<and>
   map_option status (cache sample_app (MEMORY_KEYS_stats 0)) \<in> {None, Some QIdle} \<and>
   requests ((useMemory 0 None ^^ 2) sample_app) = [] \<and>
   requests ((useMemoryStats 0 None ^^ 2) sample_app) = [] \<and>
   map_option status (cache ((useMemory 0 None ^^ 2) sample_app) (MEMORY_KEYS_detail 0))
     = Some QIdle \<and>
   map_option status (cache ((useMemoryStats 0 None ^^ 2) sample_app) (MEMORY_KEYS_stats 0))
     = Some QIdle \<and>
   requests (useMemory 5 None sample_app) = [getMemory 5]"
proof -
  have a: "cache sample_app (MEMORY_KEYS_detail 0) = None"
    "cache sample_app (MEMORY_KEYS_stats 0) = None" "requests sample_app = []"
    by (simp_all add: sample_app_def sample_cache_def memory_keys)
  have two: "Suc (Suc 0) = 2" "Suc 1 = 2"
    by simp_all
  have e: "requests (useMemory 5 None sample_app) = [getMemory 5]"
    by (simp add: useMemory_def useMemory_options_def spread_enabled_def useQuery_def Let_def
          sample_app_def sample_cache_def memory_keys idle_query_def queryHash_def isStale_def)
  note w2 = falsy_id_never_fetches [where st = sample_app and n = 2]
  note w1 = falsy_id_never_fetches [where st = sample_app and n = 1, unfolded two]
  show ?thesis
    using w1 w2 a e by simp
qed

subsection \<open>Reads of one key\<close>



















end
